theory Spec2Isabelle
  imports Complex_Main
begin

section \<open>Replication coordinator (replication.ts)\<close>

text \<open>
  \<^verbatim>\<open>interface WriteData { repo_id: string; ref: string; commit: string; [key: string]: any }\<close>
  The index signature is kept as a list of further key/value pairs.
\<close>

record WriteData =
  repo_id :: string
  ref :: string
  commit :: string
  extra :: "(string \<times> string) list"

text \<open>
  \<^verbatim>\<open>interface ReplicationResult { success; peersConfirmed; peersRequired; error? }\<close>
\<close>

record ReplicationResult =
  success :: bool
  peersConfirmed :: nat
  peersRequired :: int
  error :: "string option"

record ReplicationCoordinator =
  serverId :: string
  peerUrls :: "string list"

text \<open>
  Rendering of a number inside a template literal (\<^verbatim>\<open>`${quorumSize}`\<close>): the decimal
  digits, with a leading minus sign for a negative value.
\<close>

definition digitChar :: "nat \<Rightarrow> char" where
  "digitChar d =
     (if d = 0 then CHR ''0'' else if d = 1 then CHR ''1'' else if d = 2 then CHR ''2''
      else if d = 3 then CHR ''3'' else if d = 4 then CHR ''4'' else if d = 5 then CHR ''5''
      else if d = 6 then CHR ''6'' else if d = 7 then CHR ''7'' else if d = 8 then CHR ''8''
      else CHR ''9'')"

fun showNat :: "nat \<Rightarrow> string" where
  "showNat n = (if n < 10 then [digitChar n] else showNat (n div 10) @ [digitChar (n mod 10)])"

declare showNat.simps [simp del]

definition showInt :: "int \<Rightarrow> string" where
  "showInt i = (if i < 0 then CHR ''-'' # showNat (nat (- i)) else showNat (nat i))"

text \<open>
  \<^verbatim>\<open>getQuorumSize()\<close>: \<^verbatim>\<open>totalServers === 2 ? 1 : Math.ceil(totalServers / 2) - 1\<close>
  with \<^verbatim>\<open>totalServers = 1 + this.peerUrls.length\<close>. The division is the division of
  JavaScript numbers; on an array length it is exact, so it is the division of reals here.
\<close>

definition getQuorumSize :: "ReplicationCoordinator \<Rightarrow> int" where
  "getQuorumSize c =
     (let totalServers = 1 + int (length (peerUrls c))
      in if totalServers = 2 then 1 else \<lceil>real_of_int totalServers / 2\<rceil> - 1)"

text \<open>
  The outcome of one promise under \<^verbatim>\<open>Promise.allSettled\<close>: only
  \<^verbatim>\<open>status === 'fulfilled'\<close> is ever inspected.
\<close>

datatype Settled = Fulfilled | Rejected

text \<open>
  The network calls of the coordinator. Its only two senders are the private methods
  \<^verbatim>\<open>sendPrepare(peerUrl, transactionId, writeData)\<close>, one \<^verbatim>\<open>axios.post\<close> to
  \<^verbatim>\<open>${peerUrl}/replicate/prepare\<close>, and \<^verbatim>\<open>sendCommit(peerUrl, transactionId)\<close>, one
  \<^verbatim>\<open>axios.post\<close> to \<^verbatim>\<open>${peerUrl}/replicate/commit\<close>. The class has no sender for the
  route \<^verbatim>\<open>/replicate/abort\<close>.
\<close>

datatype PeerCall =
    SendPrepare string string WriteData
  | SendCommit string string

text \<open>
  \<^verbatim>\<open>replicateWrite(writeData)\<close>. The identifier drawn by \<^verbatim>\<open>uuidv4()\<close> and the behaviour
  of the peers are inputs: \<open>prepareEnv i\<close> is how the prepare call to the peer at
  index \<open>i\<close> of \<^verbatim>\<open>peerUrls\<close> settles, \<open>commitEnv j\<close> how the commit call to the peer at
  index \<open>j\<close> of \<^verbatim>\<open>peersToCommit\<close> settles. The function returns the result together with
  the calls it issued, in the order of issue.
\<close>

definition replicateWrite ::
  "ReplicationCoordinator \<Rightarrow> string \<Rightarrow> (nat \<Rightarrow> Settled) \<Rightarrow> (nat \<Rightarrow> Settled) \<Rightarrow> WriteData
     \<Rightarrow> ReplicationResult \<times> PeerCall list" where
  "replicateWrite c transactionId prepareEnv commitEnv writeData =
     (let quorumSize = getQuorumSize c;
          prepareCalls = map (\<lambda>peerUrl. SendPrepare peerUrl transactionId writeData) (peerUrls c);
          prepareResults = map prepareEnv [0..<length (peerUrls c)];
          successfulPrepares = filter (\<lambda>result. result = Fulfilled) prepareResults
      in if int (length successfulPrepares) < quorumSize then
           (\<lparr>success = False,
             peersConfirmed = length successfulPrepares,
             peersRequired = quorumSize,
             error = Some (''Quorum not reached. Required: '' @ showInt quorumSize @
                           '', Got: '' @ showNat (length successfulPrepares))\<rparr>,
            prepareCalls)
         else
           (let peersToCommit =
                  map fst (filter (\<lambda>(peerUrl, index). prepareResults ! index = Fulfilled)
                             (zip (peerUrls c) [0..<length (peerUrls c)]));
                commitCalls = map (\<lambda>peerUrl. SendCommit peerUrl transactionId) peersToCommit;
                commitResults = map commitEnv [0..<length peersToCommit]
            in (\<lparr>success = True,
                  peersConfirmed = length successfulPrepares,
                  peersRequired = quorumSize,
                  error = None\<rparr>,
                prepareCalls @ commitCalls)))"

text \<open>Notions the statements below are phrased with.\<close>

text \<open>The number of prepare calls that succeed, for a coordinator and a peer behaviour.\<close>

definition preparedCount :: "ReplicationCoordinator \<Rightarrow> (nat \<Rightarrow> Settled) \<Rightarrow> nat" where
  "preparedCount c prepareEnv =
     length (filter (\<lambda>i. prepareEnv i = Fulfilled) [0..<length (peerUrls c)])"

text \<open>The peers whose prepare call succeeded, by position in \<^verbatim>\<open>peerUrls\<close>.\<close>

definition preparedPeers :: "ReplicationCoordinator \<Rightarrow> (nat \<Rightarrow> Settled) \<Rightarrow> string list" where
  "preparedPeers c prepareEnv =
     map (\<lambda>i. peerUrls c ! i) (filter (\<lambda>i. prepareEnv i = Fulfilled) [0..<length (peerUrls c)])"

text \<open>The peers that a list of calls sends a commit to, one entry for each such call.\<close>

fun commitTargets :: "PeerCall list \<Rightarrow> string list" where
  "commitTargets [] = []"
| "commitTargets (SendPrepare peerUrl t w # calls) = commitTargets calls"
| "commitTargets (SendCommit peerUrl t # calls) = peerUrl # commitTargets calls"

section \<open>Repository storage (storage.ts)\<close>

text \<open>
  The file system is the set of the paths that \<^verbatim>\<open>fs.access\<close> finds. The storage
  object itself holds only \<^verbatim>\<open>dataDir\<close>.
\<close>

type_synonym FileSystem = "string set"

record RepoStorage =
  dataDir :: string

text \<open>
  \<^verbatim>\<open>getRepoPath(repoId)\<close>: \<^verbatim>\<open>path.join(this.dataDir, `${repoId}.git`)\<close>. The join is
  taken as plain concatenation with a separator; the normalisation that
  \<^verbatim>\<open>path.join\<close> performs is left out, and no statement below depends on two
  identifiers having different paths.
\<close>

definition getRepoPath :: "RepoStorage \<Rightarrow> string \<Rightarrow> string" where
  "getRepoPath st repoId = dataDir st @ ''/'' @ repoId @ ''.git''"

definition repoExists :: "RepoStorage \<Rightarrow> FileSystem \<Rightarrow> string \<Rightarrow> bool" where
  "repoExists st fs repoId = (getRepoPath st repoId \<in> fs)"

text \<open>
  \<^verbatim>\<open>createRepo(repoId)\<close> throws \<^verbatim>\<open>Error('Repository already exists')\<close> when the path
  is there. Otherwise it calls \<^verbatim>\<open>fs.mkdir\<close> and \<^verbatim>\<open>git.init\<close>, which may throw too:
  \<open>fault\<close> is the message of that error, if there is one. A thrown error is \<open>Inl\<close>
  of its message; on success the repository path exists.
\<close>

definition createRepo ::
  "RepoStorage \<Rightarrow> string option \<Rightarrow> FileSystem \<Rightarrow> string \<Rightarrow> string + FileSystem" where
  "createRepo st fault fs repoId =
     (if repoExists st fs repoId then Inl ''Repository already exists''
      else case fault of
             Some message \<Rightarrow> Inl message
           | None \<Rightarrow> Inr (insert (getRepoPath st repoId) fs))"

section \<open>Transaction handler (replication-handler.ts)\<close>

datatype Status = prepared | committed | aborted

text \<open>
  \<^verbatim>\<open>interface Transaction\<close>. The three fields that \<^verbatim>\<open>handlePrepare\<close> does not validate
  are whatever the request body holds, possibly \<^verbatim>\<open>undefined\<close>.
\<close>

record Transaction =
  transaction_id :: string
  coordinator_id :: string
  repo_id :: string
  ref :: "string option"
  commit :: "string option"
  operation :: "string option"
  timestamp :: string
  status :: Status

record ReplicationHandler =
  transactions :: "string \<rightharpoonup> Transaction"
  serverId :: string
  storage :: RepoStorage

text \<open>The constructor: \<^verbatim>\<open>transactions = new Map()\<close>.\<close>

definition newReplicationHandler :: "string \<Rightarrow> RepoStorage \<Rightarrow> ReplicationHandler" where
  "newReplicationHandler sid st = \<lparr>transactions = Map.empty, serverId = sid, storage = st\<rparr>"

text \<open>
  \<^verbatim>\<open>req.body\<close>: a JSON object, read by key. The values are strings, as
  \<^verbatim>\<open>interface Transaction\<close> and \<^verbatim>\<open>interface WriteData\<close> type them; a key that is
  absent reads as \<^verbatim>\<open>undefined\<close>, here \<open>None\<close>.
\<close>

type_synonym Body = "string \<rightharpoonup> string"

text \<open>
  JavaScript truthiness of a value that is a string or \<^verbatim>\<open>undefined\<close>: \<^verbatim>\<open>!v\<close> holds
  for \<^verbatim>\<open>undefined\<close> and for the empty string, and for nothing else.
\<close>

definition truthy :: "string option \<Rightarrow> bool" where
  "truthy v = (case v of None \<Rightarrow> False | Some s \<Rightarrow> s \<noteq> [])"

text \<open>What \<^verbatim>\<open>res.status(n).json({...})\<close> sends.\<close>

datatype Json = JString string | JBool bool | JNumber int

record Response =
  statusCode :: nat
  json :: "(string \<times> Json) list"

text \<open>The calls a handler makes on its storage object.\<close>

datatype StorageCall = CallRepoExists string | CallCreateRepo string

text \<open>The repositories that a list of storage calls asks to create, one entry for each call.\<close>

fun createCalls :: "StorageCall list \<Rightarrow> string list" where
  "createCalls [] = []"
| "createCalls (CallRepoExists repoId # calls) = createCalls calls"
| "createCalls (CallCreateRepo repoId # calls) = repoId # createCalls calls"

text \<open>
  \<^verbatim>\<open>handlePrepare(req, res)\<close>, in the version of the file that takes a storage object.
  \<open>now\<close> is \<^verbatim>\<open>new Date().toISOString()\<close> and \<open>fault\<close> the error of the file system,
  see \<open>createRepo\<close>. The function returns the response, the handler and the file system
  afterwards, and the storage calls made. One call of a handler is one step: the
  interleaving of two calls at an \<^verbatim>\<open>await\<close> is not described.
\<close>

definition handlePrepare ::
  "string \<Rightarrow> string option \<Rightarrow> Body \<Rightarrow> ReplicationHandler \<Rightarrow> FileSystem
     \<Rightarrow> Response \<times> ReplicationHandler \<times> FileSystem \<times> StorageCall list" where
  "handlePrepare now fault body h fs =
     (if \<not> truthy (body ''transaction_id'') \<or> \<not> truthy (body ''coordinator_id'')
         \<or> \<not> truthy (body ''repo_id'') then
        (\<lparr>statusCode = 400,
          json = [(''error'',
                   JString ''Missing required fields: transaction_id, coordinator_id, repo_id'')]\<rparr>,
         h, fs, [])
      else
        (let tid = the (body ''transaction_id'');
             cid = the (body ''coordinator_id'');
             rid = the (body ''repo_id'');
             (created, calls) =
               (if body ''operation'' = Some ''create'' then
                  (if \<not> repoExists (storage h) fs rid then
                     (createRepo (storage h) fault fs rid, [CallRepoExists rid, CallCreateRepo rid])
                   else (Inr fs, [CallRepoExists rid]))
                else (Inr fs, []))
         in case created of
              Inl message \<Rightarrow>
                (\<lparr>statusCode = 500,
                  json = [(''error'', JString ''Prepare failed''), (''details'', JString message)]\<rparr>,
                 h, fs, calls)
            | Inr fs' \<Rightarrow>
                (let transaction =
                       \<lparr>transaction_id = tid,
                        coordinator_id = cid,
                        repo_id = rid,
                        ref = body ''ref'',
                        commit = body ''commit'',
                        operation = body ''operation'',
                        timestamp = now,
                        status = prepared\<rparr>
                 in (\<lparr>statusCode = 200,
                       json = [(''status'', JString ''prepared''), (''transaction_id'', JString tid),
                               (''server_id'', JString (ReplicationHandler.serverId h))]\<rparr>,
                     h\<lparr>transactions := (transactions h)(tid \<mapsto> transaction)\<rparr>, fs', calls))))"

text \<open>
  \<^verbatim>\<open>handleCommit(req, res)\<close>: the record found is updated in place,
  \<^verbatim>\<open>transaction.status = 'committed'\<close>, whatever its status was.
\<close>

definition handleCommit :: "Body \<Rightarrow> ReplicationHandler \<Rightarrow> Response \<times> ReplicationHandler" where
  "handleCommit body h =
     (if \<not> truthy (body ''transaction_id'') \<or> \<not> truthy (body ''coordinator_id'') then
        (\<lparr>statusCode = 400,
          json = [(''error'', JString ''Missing required fields: transaction_id, coordinator_id'')]\<rparr>,
         h)
      else
        (let tid = the (body ''transaction_id'')
         in case transactions h tid of
              None \<Rightarrow>
                (\<lparr>statusCode = 404,
                  json = [(''error'', JString (''Transaction not found: '' @ tid))]\<rparr>,
                 h)
            | Some transaction \<Rightarrow>
                (\<lparr>statusCode = 200,
                  json = [(''status'', JString ''committed''), (''transaction_id'', JString tid),
                          (''server_id'', JString (ReplicationHandler.serverId h))]\<rparr>,
                 h\<lparr>transactions := (transactions h)(tid \<mapsto> transaction\<lparr>status := committed\<rparr>)\<rparr>)))"

text \<open>
  \<^verbatim>\<open>handleAbort(req, res)\<close>: succeeds whether or not the transaction is found; a
  record that is found gets \<^verbatim>\<open>transaction.status = 'aborted'\<close>, whatever its status was.
\<close>

definition handleAbort :: "Body \<Rightarrow> ReplicationHandler \<Rightarrow> Response \<times> ReplicationHandler" where
  "handleAbort body h =
     (if \<not> truthy (body ''transaction_id'') \<or> \<not> truthy (body ''coordinator_id'') then
        (\<lparr>statusCode = 400,
          json = [(''error'', JString ''Missing required fields: transaction_id, coordinator_id'')]\<rparr>,
         h)
      else
        (let tid = the (body ''transaction_id'')
         in (\<lparr>statusCode = 200,
               json = [(''status'', JString ''aborted''), (''transaction_id'', JString tid),
                       (''server_id'', JString (ReplicationHandler.serverId h))]\<rparr>,
             case transactions h tid of
               None \<Rightarrow> h
             | Some transaction \<Rightarrow>
                 h\<lparr>transactions := (transactions h)(tid \<mapsto> transaction\<lparr>status := aborted\<rparr>)\<rparr>)))"

section \<open>The local write path (GitServer.handleCreateRepo)\<close>

record GitServer =
  storage :: RepoStorage
  replicationCoordinator :: "ReplicationCoordinator option"

text \<open>The constructor: a coordinator exists only when there are peers.\<close>

definition newGitServer :: "string \<Rightarrow> string \<Rightarrow> string list \<Rightarrow> GitServer" where
  "newGitServer dir sid peers =
     \<lparr>storage = \<lparr>dataDir = dir\<rparr>,
      replicationCoordinator =
        (if length peers > 0
         then Some \<lparr>ReplicationCoordinator.serverId = sid, peerUrls = peers\<rparr> else None)\<rparr>"

text \<open>
  \<^verbatim>\<open>handleCreateRepo(req, res)\<close>, with the inputs of \<open>createRepo\<close> and of
  \<open>replicateWrite\<close>. It returns the response, the file system afterwards and the
  calls sent to the peers.
\<close>

definition handleCreateRepo ::
  "GitServer \<Rightarrow> string option \<Rightarrow> string \<Rightarrow> (nat \<Rightarrow> Settled) \<Rightarrow> (nat \<Rightarrow> Settled) \<Rightarrow> Body
     \<Rightarrow> FileSystem \<Rightarrow> Response \<times> FileSystem \<times> PeerCall list" where
  "handleCreateRepo g fault transactionId prepareEnv commitEnv body fs =
     (if \<not> truthy (body ''repo_id'') then
        (\<lparr>statusCode = 400, json = [(''error'', JString ''Missing repo_id'')]\<rparr>, fs, [])
      else
        (let rid = the (body ''repo_id'')
         in if repoExists (GitServer.storage g) fs rid then
              (\<lparr>statusCode = 409, json = [(''error'', JString ''Repository already exists'')]\<rparr>,
               fs, [])
            else
              (case createRepo (GitServer.storage g) fault fs rid of
                 Inl message \<Rightarrow>
                   (\<lparr>statusCode = 500,
                     json = [(''error'', JString ''Failed to create repository''),
                             (''details'', JString message)]\<rparr>,
                    fs, [])
               | Inr fs' \<Rightarrow>
                   (case replicationCoordinator g of
                      None \<Rightarrow>
                        (\<lparr>statusCode = 201,
                          json = [(''repo_id'', JString rid), (''created'', JBool True),
                                  (''replicated'', JBool False), (''peers_confirmed'', JNumber 0)]\<rparr>,
                         fs', [])
                    | Some c \<Rightarrow>
                        (let (replicationResult, calls) =
                               replicateWrite c transactionId prepareEnv commitEnv
                                 \<lparr>WriteData.repo_id = rid,
                                  WriteData.ref = ''refs/heads/main'',
                                  WriteData.commit = ''initial'',
                                  extra = [(''operation'', ''create'')]\<rparr>
                         in if \<not> success replicationResult then
                              (\<lparr>statusCode = 500,
                                json = (''error'', JString ''Replication failed'') #
                                       (case error replicationResult of
                                          None \<Rightarrow> []
                                        | Some e \<Rightarrow> [(''details'', JString e)])\<rparr>,
                               fs', calls)
                            else
                              (\<lparr>statusCode = 201,
                                json = [(''repo_id'', JString rid), (''created'', JBool True),
                                        (''replicated'', JBool True),
                                        (''peers_confirmed'',
                                         JNumber (int (peersConfirmed replicationResult)))]\<rparr>,
                               fs', calls))))))"

section \<open>Quorum size\<close>

lemma ceiling_half: "\<lceil>real_of_int t / 2\<rceil> = (t + 1) div 2"
proof -
  have "\<lceil>real_of_int t / real_of_int 2\<rceil> = - (- t div 2)"
    by (rule ceiling_divide_eq_div)
  also have "\<dots> = (t + 1) div 2"
    by presburger
  finally show ?thesis
    by simp
qed

lemma getQuorumSize_closed:
  "getQuorumSize c =
     (if length (peerUrls c) = 1 then 1 else int (length (peerUrls c) div 2))"
proof -
  have "(1 + int n + 1) div 2 - 1 = int (n div 2)" for n :: nat
    by (simp add: zdiv_int)
  then show ?thesis
    unfolding getQuorumSize_def Let_def ceiling_half by auto
qed

lemma getQuorumSize_le_peers: "getQuorumSize c \<le> int (length (peerUrls c))"
proof -
  have "int (n div 2) \<le> int n" for n :: nat
    by simp
  then show ?thesis
    unfolding getQuorumSize_closed by simp
qed

section \<open>The two outcomes of a replicated write\<close>


lemma zip_upt_nth: "zip xs [0..<length xs] = map (\<lambda>i. (xs ! i, i)) [0..<length xs]"
  by (rule nth_equalityI) simp_all

lemma successful_count:
  "length (filter (\<lambda>result. result = Fulfilled) (map prepareEnv [0..<length (peerUrls c)]))
     = preparedCount c prepareEnv"
  unfolding preparedCount_def by (simp add: filter_map comp_def)

lemma peersToCommit_eq:
  "map fst (filter (\<lambda>(peerUrl, index). map prepareEnv [0..<length (peerUrls c)] ! index = Fulfilled)
              (zip (peerUrls c) [0..<length (peerUrls c)]))
     = preparedPeers c prepareEnv"
proof -
  have "filter ((\<lambda>(peerUrl, index). map prepareEnv [0..<length (peerUrls c)] ! index = Fulfilled)
                  \<circ> (\<lambda>i. (peerUrls c ! i, i))) [0..<length (peerUrls c)]
        = filter (\<lambda>i. prepareEnv i = Fulfilled) [0..<length (peerUrls c)]"
    by (rule filter_cong) simp_all
  then show ?thesis
    unfolding preparedPeers_def zip_upt_nth filter_map by (simp add: comp_def)
qed

lemma replicateWrite_below_quorum:
  assumes "int (preparedCount c prepareEnv) < getQuorumSize c"
  shows "replicateWrite c t prepareEnv commitEnv w =
           (\<lparr>success = False,
             peersConfirmed = preparedCount c prepareEnv,
             peersRequired = getQuorumSize c,
             error = Some (''Quorum not reached. Required: '' @ showInt (getQuorumSize c) @
                           '', Got: '' @ showNat (preparedCount c prepareEnv))\<rparr>,
            map (\<lambda>peerUrl. SendPrepare peerUrl t w) (peerUrls c))"
  using assms unfolding replicateWrite_def Let_def successful_count by simp

lemma replicateWrite_quorum:
  assumes "getQuorumSize c \<le> int (preparedCount c prepareEnv)"
  shows "replicateWrite c t prepareEnv commitEnv w =
           (\<lparr>success = True,
             peersConfirmed = preparedCount c prepareEnv,
             peersRequired = getQuorumSize c,
             error = None\<rparr>,
            map (\<lambda>peerUrl. SendPrepare peerUrl t w) (peerUrls c) @
            map (\<lambda>peerUrl. SendCommit peerUrl t) (preparedPeers c prepareEnv))"
  using assms unfolding replicateWrite_def Let_def successful_count peersToCommit_eq by simp

lemma commitTargets_append: "commitTargets (xs @ ys) = commitTargets xs @ commitTargets ys"
  by (induction xs rule: commitTargets.induct) simp_all

lemma commitTargets_prepares: "commitTargets (map (\<lambda>peerUrl. SendPrepare peerUrl t w) us) = []"
  by (induction us) simp_all

lemma commitTargets_commits: "commitTargets (map (\<lambda>peerUrl. SendCommit peerUrl t) us) = us"
  by (induction us) simp_all

lemma all_prepared_count:
  assumes "\<forall>i<length (peerUrls c). prepareEnv i = Fulfilled"
  shows "preparedCount c prepareEnv = length (peerUrls c)"
    and "preparedPeers c prepareEnv = peerUrls c"
proof -
  have "filter (\<lambda>i. prepareEnv i = Fulfilled) [0..<length (peerUrls c)] = [0..<length (peerUrls c)]"
    using assms by (simp add: filter_id_conv)
  then show "preparedCount c prepareEnv = length (peerUrls c)"
    and "preparedPeers c prepareEnv = peerUrls c"
    unfolding preparedCount_def preparedPeers_def by (simp_all add: map_nth)
qed

lemma failed_not_prepared:
  assumes "distinct (peerUrls c)" "i < length (peerUrls c)" "prepareEnv i \<noteq> Fulfilled"
  shows "peerUrls c ! i \<notin> set (preparedPeers c prepareEnv)"
proof
  assume "peerUrls c ! i \<in> set (preparedPeers c prepareEnv)"
  then obtain j where j: "j < length (peerUrls c)" "prepareEnv j = Fulfilled"
      "peerUrls c ! j = peerUrls c ! i"
    unfolding preparedPeers_def by auto
  with assms(1,2) have "j = i"
    by (simp add: nth_eq_iff_index_eq)
  with j(2) assms(3) show False
    by simp
qed

section \<open>Facts about the handlers\<close>

lemma truthy_Some: "truthy (Some s) = (s \<noteq> [])"
  by (simp add: truthy_def)

lemma truthy_iff: "truthy v = (v \<noteq> None \<and> v \<noteq> Some [])"
  by (cases v) (simp_all add: truthy_def)

lemma status_same: "t\<lparr>status := status t\<rparr> = t"
  by simp

lemma handlePrepare_invalid:
  assumes "\<not> truthy (body ''transaction_id'') \<or> \<not> truthy (body ''coordinator_id'')
           \<or> \<not> truthy (body ''repo_id'')"
  shows "handlePrepare now fault body h fs =
           (\<lparr>statusCode = 400,
             json = [(''error'',
                      JString ''Missing required fields: transaction_id, coordinator_id, repo_id'')]\<rparr>,
            h, fs, [])"
  using assms unfolding handlePrepare_def by (simp only: if_True)

lemma handlePrepare_valid:
  assumes "body ''transaction_id'' = Some tid" and "tid \<noteq> []"
    and "body ''coordinator_id'' = Some cid" and "cid \<noteq> []"
    and "body ''repo_id'' = Some rid" and "rid \<noteq> []"
  shows "handlePrepare now fault body h fs =
     (if body ''operation'' = Some ''create'' \<and> \<not> repoExists (ReplicationHandler.storage h) fs rid
         \<and> fault \<noteq> None then
        (\<lparr>statusCode = 500,
          json = [(''error'', JString ''Prepare failed''), (''details'', JString (the fault))]\<rparr>,
         h, fs, [CallRepoExists rid, CallCreateRepo rid])
      else
        (\<lparr>statusCode = 200,
          json = [(''status'', JString ''prepared''), (''transaction_id'', JString tid),
                  (''server_id'', JString (ReplicationHandler.serverId h))]\<rparr>,
         h\<lparr>transactions := (transactions h)(tid \<mapsto>
              \<lparr>transaction_id = tid, coordinator_id = cid, repo_id = rid,
               ref = body ''ref'', commit = body ''commit'', operation = body ''operation'',
               timestamp = now, status = prepared\<rparr>)\<rparr>,
         if body ''operation'' = Some ''create'' \<and> \<not> repoExists (ReplicationHandler.storage h) fs rid
         then insert (getRepoPath (ReplicationHandler.storage h) rid) fs else fs,
         if body ''operation'' = Some ''create'' then
           (if \<not> repoExists (ReplicationHandler.storage h) fs rid
            then [CallRepoExists rid, CallCreateRepo rid] else [CallRepoExists rid])
         else []))"
  using assms
  by (cases fault) (simp_all add: handlePrepare_def truthy_Some createRepo_def Let_def)

lemma handlePrepare_code_400:
  "(statusCode (fst (handlePrepare now fault body h fs)) = 400)
     = (\<not> truthy (body ''transaction_id'') \<or> \<not> truthy (body ''coordinator_id'')
        \<or> \<not> truthy (body ''repo_id''))"
proof (cases "\<not> truthy (body ''transaction_id'') \<or> \<not> truthy (body ''coordinator_id'')
        \<or> \<not> truthy (body ''repo_id'')")
  case True
  then show ?thesis
    by (simp add: handlePrepare_invalid)
next
  case False
  then obtain tid cid rid where
    "body ''transaction_id'' = Some tid" "tid \<noteq> []"
    "body ''coordinator_id'' = Some cid" "cid \<noteq> []"
    "body ''repo_id'' = Some rid" "rid \<noteq> []"
    by (auto simp: truthy_iff)
  from handlePrepare_valid [OF this] False show ?thesis
    by simp
qed

lemma createCalls_append: "createCalls (xs @ ys) = createCalls xs @ createCalls ys"
  by (induction xs rule: createCalls.induct) simp_all

section \<open>Facts about the local write path\<close>

lemma createRepo_Inr:
  assumes "createRepo st fault fs rid = Inr fs1"
  shows "\<not> repoExists st fs rid" and "fs1 = insert (getRepoPath st rid) fs"
    and "repoExists st fs1 rid"
  using assms by (auto simp: createRepo_def repoExists_def split: if_splits option.splits)

lemma not_success_below_quorum:
  assumes "\<not> success (fst (replicateWrite c t prepareEnv commitEnv w))"
  shows "int (preparedCount c prepareEnv) < getQuorumSize c"
proof (rule ccontr)
  assume "\<not> int (preparedCount c prepareEnv) < getQuorumSize c"
  then have "getQuorumSize c \<le> int (preparedCount c prepareEnv)"
    by simp
  from replicateWrite_quorum [OF this] assms show False
    by simp
qed

section \<open>Claims about the coordinator\<close>

text \<open>
  Claim C1, as amended. For a coordinator with 0, 1, 2, 3, 4, 5 or 6 configured peers (a cluster
  of N = 1 to 7 nodes), \<open>getQuorumSize\<close> returns 0, 1, 1, 1, 2, 2 and 3: the table of
  the specification up to N = 6, and 3 rather than 2 at N = 7, as the formula
  \<open>ceil(N/2) - 1\<close> gives.
\<close>

theorem getQuorumSize_table:
  "getQuorumSize \<lparr>ReplicationCoordinator.serverId = s, peerUrls = []\<rparr> = 0
   \<and> getQuorumSize \<lparr>ReplicationCoordinator.serverId = s, peerUrls = [p1]\<rparr> = 1
   \<and> getQuorumSize \<lparr>ReplicationCoordinator.serverId = s, peerUrls = [p1, p2]\<rparr> = 1
   \<and> getQuorumSize \<lparr>ReplicationCoordinator.serverId = s, peerUrls = [p1, p2, p3]\<rparr> = 1
   \<and> getQuorumSize \<lparr>ReplicationCoordinator.serverId = s, peerUrls = [p1, p2, p3, p4]\<rparr> = 2
   \<and> getQuorumSize \<lparr>ReplicationCoordinator.serverId = s, peerUrls = [p1, p2, p3, p4, p5]\<rparr> = 2
   \<and> getQuorumSize \<lparr>ReplicationCoordinator.serverId = s, peerUrls = [p1, p2, p3, p4, p5, p6]\<rparr> = 3"
  by (simp add: getQuorumSize_closed)

text \<open>The table of claim C1 at two concrete coordinators, of three and of seven nodes.\<close>

theorem getQuorumSize_table_witness:
  "getQuorumSize \<lparr>ReplicationCoordinator.serverId = ''server-1'',
      peerUrls = [''http://localhost:3001'', ''http://localhost:3002'']\<rparr> = 1
   \<and> getQuorumSize \<lparr>ReplicationCoordinator.serverId = ''server-1'',
      peerUrls = [''http://n2'', ''http://n3'', ''http://n4'', ''http://n5'', ''http://n6'',
                  ''http://n7'']\<rparr> = 3"
  using getQuorumSize_table [of "''server-1''" "''http://localhost:3001''" "''http://localhost:3002''"]
    getQuorumSize_table [of "''server-1''" "''http://n2''" "''http://n3''" "''http://n4''"
      "''http://n5''" "''http://n6''" "''http://n7''"]
  by simp

text \<open>
  Claim C1, as stated, fails at N = 7: with six peers the quorum is not 2.
\<close>

theorem getQuorumSize_seven_counterexample:
  "getQuorumSize \<lparr>ReplicationCoordinator.serverId = ''server-1'',
      peerUrls = [''http://n2'', ''http://n3'', ''http://n4'', ''http://n5'', ''http://n6'', ''http://n7'']\<rparr> \<noteq> 2"
  by (simp add: getQuorumSize_closed)

text \<open>
  Claim C2. The claim asks for an abort call to every peer whose prepare succeeded when
  the quorum is missed. In a cluster of five nodes where only the first peer prepares,
  the quorum of 2 is missed, the result carries \<open>success = False\<close>,
  \<open>peersConfirmed = 1\<close> and \<open>peersRequired = 2\<close>, and the calls sent are the four
  prepare calls and nothing else: the peer that prepared receives no abort.
\<close>

theorem replicateWrite_below_quorum_example:
  "replicateWrite
     \<lparr>ReplicationCoordinator.serverId = ''server-1'',
      peerUrls = [''http://n2'', ''http://n3'', ''http://n4'', ''http://n5'']\<rparr>
     ''tx-1'' ((!) [Fulfilled, Rejected, Rejected, Rejected]) (\<lambda>j. Rejected)
     \<lparr>WriteData.repo_id = ''alice/proj'', WriteData.ref = ''refs/heads/main'',
      WriteData.commit = ''initial'', extra = [(''operation'', ''create'')]\<rparr>
   = (\<lparr>success = False, peersConfirmed = 1, peersRequired = 2,
       error = Some ''Quorum not reached. Required: 2, Got: 1''\<rparr>,
      [SendPrepare ''http://n2'' ''tx-1''
         \<lparr>WriteData.repo_id = ''alice/proj'', WriteData.ref = ''refs/heads/main'',
          WriteData.commit = ''initial'', extra = [(''operation'', ''create'')]\<rparr>,
       SendPrepare ''http://n3'' ''tx-1''
         \<lparr>WriteData.repo_id = ''alice/proj'', WriteData.ref = ''refs/heads/main'',
          WriteData.commit = ''initial'', extra = [(''operation'', ''create'')]\<rparr>,
       SendPrepare ''http://n4'' ''tx-1''
         \<lparr>WriteData.repo_id = ''alice/proj'', WriteData.ref = ''refs/heads/main'',
          WriteData.commit = ''initial'', extra = [(''operation'', ''create'')]\<rparr>,
       SendPrepare ''http://n5'' ''tx-1''
         \<lparr>WriteData.repo_id = ''alice/proj'', WriteData.ref = ''refs/heads/main'',
          WriteData.commit = ''initial'', extra = [(''operation'', ''create'')]\<rparr>])"
  by (simp add: replicateWrite_def getQuorumSize_closed showInt_def showNat.simps
        digitChar_def)

text \<open>
  Claim C4. When the prepare call of every peer succeeds, the result has
  \<open>success = True\<close> and \<open>peersConfirmed\<close> equal to the number of peers, and the calls
  sent are one prepare per peer followed by one commit per peer. Whenever the quorum is
  reached, the commit calls go to exactly the peers whose prepare succeeded, one call for
  each, in their order; with pairwise different peer URLs, a peer whose prepare failed is
  sent no commit.
\<close>

theorem replicateWrite_all_prepared:
  fixes c t prepareEnv commitEnv w
  defines "r \<equiv> replicateWrite c t prepareEnv commitEnv w"
  shows "((\<forall>i<length (peerUrls c). prepareEnv i = Fulfilled) \<longrightarrow>
            success (fst r) \<and> peersConfirmed (fst r) = length (peerUrls c)
            \<and> snd r = map (\<lambda>peerUrl. SendPrepare peerUrl t w) (peerUrls c) @
                       map (\<lambda>peerUrl. SendCommit peerUrl t) (peerUrls c))
         \<and> (getQuorumSize c \<le> int (preparedCount c prepareEnv) \<longrightarrow>
              commitTargets (snd r) = preparedPeers c prepareEnv
              \<and> (distinct (peerUrls c) \<longrightarrow>
                   (\<forall>i<length (peerUrls c). prepareEnv i \<noteq> Fulfilled \<longrightarrow>
                      peerUrls c ! i \<notin> set (commitTargets (snd r)))))"
proof (intro conjI impI)
  assume every: "\<forall>i<length (peerUrls c). prepareEnv i = Fulfilled"
  have "getQuorumSize c \<le> int (preparedCount c prepareEnv)"
    using getQuorumSize_le_peers [of c] all_prepared_count(1) [OF every] by simp
  then have "r = (\<lparr>success = True,
             peersConfirmed = length (peerUrls c),
             peersRequired = getQuorumSize c,
             error = None\<rparr>,
            map (\<lambda>peerUrl. SendPrepare peerUrl t w) (peerUrls c) @
            map (\<lambda>peerUrl. SendCommit peerUrl t) (peerUrls c))"
    unfolding r_def using all_prepared_count [OF every] by (simp add: replicateWrite_quorum)
  then show "success (fst r)" and "peersConfirmed (fst r) = length (peerUrls c)"
    and "snd r = map (\<lambda>peerUrl. SendPrepare peerUrl t w) (peerUrls c) @
                       map (\<lambda>peerUrl. SendCommit peerUrl t) (peerUrls c)"
    by simp_all
next
  assume q: "getQuorumSize c \<le> int (preparedCount c prepareEnv)"
  show targets: "commitTargets (snd r) = preparedPeers c prepareEnv"
    unfolding r_def replicateWrite_quorum [OF q]
    by (simp add: commitTargets_append commitTargets_prepares commitTargets_commits)
  assume "distinct (peerUrls c)"
  then show "\<forall>i<length (peerUrls c). prepareEnv i \<noteq> Fulfilled \<longrightarrow>
                      peerUrls c ! i \<notin> set (commitTargets (snd r))"
    unfolding targets using failed_not_prepared by blast
qed

text \<open>
  Claim C4 at a cluster of three nodes where both peers prepare, and at a cluster of four
  nodes where the second peer fails to prepare.
\<close>

theorem replicateWrite_all_prepared_witness:
  "snd (replicateWrite
          \<lparr>ReplicationCoordinator.serverId = ''server-1'',
           peerUrls = [''http://localhost:3001'', ''http://localhost:3002'']\<rparr>
          ''tx-1'' (\<lambda>i. Fulfilled) (\<lambda>j. Rejected)
          \<lparr>WriteData.repo_id = ''user/repo'', WriteData.ref = ''refs/heads/main'',
           WriteData.commit = ''abc123'', extra = []\<rparr>)
     = [SendPrepare ''http://localhost:3001'' ''tx-1''
          \<lparr>WriteData.repo_id = ''user/repo'', WriteData.ref = ''refs/heads/main'',
           WriteData.commit = ''abc123'', extra = []\<rparr>,
        SendPrepare ''http://localhost:3002'' ''tx-1''
          \<lparr>WriteData.repo_id = ''user/repo'', WriteData.ref = ''refs/heads/main'',
           WriteData.commit = ''abc123'', extra = []\<rparr>,
        SendCommit ''http://localhost:3001'' ''tx-1'',
        SendCommit ''http://localhost:3002'' ''tx-1'']
   \<and> commitTargets (snd (replicateWrite
          \<lparr>ReplicationCoordinator.serverId = ''server-1'',
           peerUrls = [''http://n2'', ''http://n3'', ''http://n4'']\<rparr>
          ''tx-2'' ((!) [Fulfilled, Rejected, Fulfilled]) (\<lambda>j. Fulfilled)
          \<lparr>WriteData.repo_id = ''user/repo'', WriteData.ref = ''refs/heads/main'',
           WriteData.commit = ''abc123'', extra = []\<rparr>))
     = [''http://n2'', ''http://n4'']
   \<and> ''http://n3'' \<notin> set (commitTargets (snd (replicateWrite
          \<lparr>ReplicationCoordinator.serverId = ''server-1'',
           peerUrls = [''http://n2'', ''http://n3'', ''http://n4'']\<rparr>
          ''tx-2'' ((!) [Fulfilled, Rejected, Fulfilled]) (\<lambda>j. Fulfilled)
          \<lparr>WriteData.repo_id = ''user/repo'', WriteData.ref = ''refs/heads/main'',
           WriteData.commit = ''abc123'', extra = []\<rparr>)))"
proof -
  let ?w = "\<lparr>WriteData.repo_id = ''user/repo'', WriteData.ref = ''refs/heads/main'',
           WriteData.commit = ''abc123'', extra = []\<rparr>"
  let ?c2 = "\<lparr>ReplicationCoordinator.serverId = ''server-1'',
           peerUrls = [''http://localhost:3001'', ''http://localhost:3002'']\<rparr>"
  let ?c3 = "\<lparr>ReplicationCoordinator.serverId = ''server-1'',
           peerUrls = [''http://n2'', ''http://n3'', ''http://n4'']\<rparr>"
  let ?env = "(!) [Fulfilled, Rejected, Fulfilled]"
  have q: "getQuorumSize ?c3 \<le> int (preparedCount ?c3 ?env)"
    by (simp add: getQuorumSize_closed preparedCount_def)
  have p: "preparedPeers ?c3 ?env = [''http://n2'', ''http://n4'']"
    by (simp add: preparedPeers_def)
  have d: "distinct (peerUrls ?c3)" "1 < length (peerUrls ?c3)" "?env 1 \<noteq> Fulfilled"
    by simp_all
  have e: "\<forall>i<length (peerUrls ?c2). (\<lambda>i. Fulfilled) i = Fulfilled"
    by simp
  note A = replicateWrite_all_prepared [of ?c2 "\<lambda>i. Fulfilled" "''tx-1''" "\<lambda>j. Rejected" ?w,
      THEN conjunct1, THEN mp, OF e, THEN conjunct2, THEN conjunct2]
  note B = replicateWrite_all_prepared [of ?c3 ?env "''tx-2''" "\<lambda>j. Fulfilled" ?w,
      THEN conjunct2, THEN mp, OF q]
  note B1 = B [THEN conjunct1]
  note B2 = B [THEN conjunct2, THEN mp, OF d(1), THEN spec, of 1, THEN mp, OF d(2),
      THEN mp, OF d(3)]
  have a: "snd (replicateWrite ?c2 ''tx-1'' (\<lambda>i. Fulfilled) (\<lambda>j. Rejected) ?w) =
      [SendPrepare ''http://localhost:3001'' ''tx-1'' ?w,
       SendPrepare ''http://localhost:3002'' ''tx-1'' ?w,
       SendCommit ''http://localhost:3001'' ''tx-1'',
       SendCommit ''http://localhost:3002'' ''tx-1'']"
    unfolding A by simp
  have b: "commitTargets (snd (replicateWrite ?c3 ''tx-2'' ?env (\<lambda>j. Fulfilled) ?w))
             = [''http://n2'', ''http://n4'']"
    unfolding B1 p by (rule refl)
  have n: "peerUrls ?c3 ! 1 = ''http://n3''"
    by simp
  show ?thesis
    using a b B2 unfolding n by (intro conjI)
qed

text \<open>
  Claim C5. When the number of successful prepares is at least the quorum, the result has
  \<open>success = True\<close> however the commit calls settle: the result and the calls sent are
  the same for any two behaviours of the peers in phase 2. The number of commit calls is
  the number of successful prepares, so no commit is sent a second time.
\<close>

theorem replicateWrite_commit_failures_ignored:
  assumes "getQuorumSize c \<le> int (preparedCount c prepareEnv)"
  shows "success (fst (replicateWrite c t prepareEnv commitEnv w))
         \<and> replicateWrite c t prepareEnv commitEnv w = replicateWrite c t prepareEnv commitEnv' w
         \<and> length (commitTargets (snd (replicateWrite c t prepareEnv commitEnv w)))
             = preparedCount c prepareEnv"
proof -
  have "length (preparedPeers c prepareEnv) = preparedCount c prepareEnv"
    unfolding preparedPeers_def preparedCount_def by simp
  then show ?thesis
    unfolding replicateWrite_quorum [OF assms]
    by (simp add: commitTargets_append commitTargets_prepares commitTargets_commits)
qed

text \<open>
  Claim C5 at a cluster of three nodes: one peer prepares, its commit call fails, and the
  write still succeeds with a single commit call.
\<close>

theorem replicateWrite_commit_failures_ignored_witness:
  "success (fst (replicateWrite
          \<lparr>ReplicationCoordinator.serverId = ''server-1'',
           peerUrls = [''http://localhost:3001'', ''http://localhost:3002'']\<rparr>
          ''tx-1'' ((!) [Fulfilled, Rejected]) (\<lambda>j. Rejected)
          \<lparr>WriteData.repo_id = ''user/repo'', WriteData.ref = ''refs/heads/main'',
           WriteData.commit = ''abc123'', extra = []\<rparr>))
   \<and> length (commitTargets (snd (replicateWrite
          \<lparr>ReplicationCoordinator.serverId = ''server-1'',
           peerUrls = [''http://localhost:3001'', ''http://localhost:3002'']\<rparr>
          ''tx-1'' ((!) [Fulfilled, Rejected]) (\<lambda>j. Rejected)
          \<lparr>WriteData.repo_id = ''user/repo'', WriteData.ref = ''refs/heads/main'',
           WriteData.commit = ''abc123'', extra = []\<rparr>))) = 1"
proof -
  let ?c = "\<lparr>ReplicationCoordinator.serverId = ''server-1'',
           peerUrls = [''http://localhost:3001'', ''http://localhost:3002'']\<rparr>"
  let ?env = "(!) [Fulfilled, Rejected]"
  have n: "preparedCount ?c ?env = 1"
    by (simp add: preparedCount_def)
  have q: "getQuorumSize ?c \<le> int (preparedCount ?c ?env)"
    unfolding n by (simp add: getQuorumSize_closed)
  from replicateWrite_commit_failures_ignored [OF q] n show ?thesis
    by simp
qed

section \<open>Claims about the transaction handler\<close>

text \<open>
  Claim C3, as amended. On a record that exists, commit sets the status to \<open>committed\<close>
  and abort sets it to \<open>aborted\<close>, whatever the status was before; every other field
  of the record and every other record stay as they were, and both calls answer 200.
  Re-applying commit to a committed record, or abort to an aborted one, leaves the
  handler unchanged.
\<close>

theorem commit_abort_overwrite_status:
  assumes "body ''transaction_id'' = Some tid" and "tid \<noteq> []"
    and "truthy (body ''coordinator_id'')"
    and "transactions h tid = Some t"
  shows "snd (handleCommit body h)
           = h\<lparr>transactions := (transactions h)(tid \<mapsto> t\<lparr>status := committed\<rparr>)\<rparr>
         \<and> snd (handleAbort body h)
           = h\<lparr>transactions := (transactions h)(tid \<mapsto> t\<lparr>status := aborted\<rparr>)\<rparr>
         \<and> statusCode (fst (handleCommit body h)) = 200
         \<and> statusCode (fst (handleAbort body h)) = 200
         \<and> (status t = committed \<longrightarrow> snd (handleCommit body h) = h)
         \<and> (status t = aborted \<longrightarrow> snd (handleAbort body h) = h)"
proof -
  have c: "handleCommit body h =
      (\<lparr>statusCode = 200,
        json = [(''status'', JString ''committed''), (''transaction_id'', JString tid),
                (''server_id'', JString (ReplicationHandler.serverId h))]\<rparr>,
       h\<lparr>transactions := (transactions h)(tid \<mapsto> t\<lparr>status := committed\<rparr>)\<rparr>)"
    using assms by (simp add: handleCommit_def truthy_Some)
  have a: "handleAbort body h =
      (\<lparr>statusCode = 200,
        json = [(''status'', JString ''aborted''), (''transaction_id'', JString tid),
                (''server_id'', JString (ReplicationHandler.serverId h))]\<rparr>,
       h\<lparr>transactions := (transactions h)(tid \<mapsto> t\<lparr>status := aborted\<rparr>)\<rparr>)"
    using assms by (simp add: handleAbort_def truthy_Some)
  have same: "(transactions h)(tid \<mapsto> t) = transactions h"
    using assms(4) by (rule map_upd_triv)
  have ic: "h\<lparr>transactions := (transactions h)(tid \<mapsto> t\<lparr>status := committed\<rparr>)\<rparr> = h"
    if "status t = committed"
  proof -
    have "t\<lparr>status := committed\<rparr> = t"
      using that status_same [of t] by simp
    then show ?thesis
      using same by simp
  qed
  have ia: "h\<lparr>transactions := (transactions h)(tid \<mapsto> t\<lparr>status := aborted\<rparr>)\<rparr> = h"
    if "status t = aborted"
  proof -
    have "t\<lparr>status := aborted\<rparr> = t"
      using that status_same [of t] by simp
    then show ?thesis
      using same by simp
  qed
  show ?thesis
    unfolding c a using ic ia by simp
qed

text \<open>
  Claim C3, as amended, at a committed record: a second commit changes nothing, an abort
  turns the status into \<open>aborted\<close>.
\<close>

theorem commit_abort_overwrite_status_witness:
  "snd (handleCommit
          (map_of [(''transaction_id'', ''tx-1''), (''coordinator_id'', ''server-1'')])
          \<lparr>transactions = map_of [(''tx-1'',
              \<lparr>transaction_id = ''tx-1'', coordinator_id = ''server-1'', repo_id = ''alice/proj'',
               ref = None, commit = None, operation = None,
               timestamp = ''2025-12-11T10:00:00.000Z'', status = committed\<rparr>)],
           serverId = ''server-2'', storage = \<lparr>dataDir = ''./data''\<rparr>\<rparr>)
     = \<lparr>transactions = map_of [(''tx-1'',
              \<lparr>transaction_id = ''tx-1'', coordinator_id = ''server-1'', repo_id = ''alice/proj'',
               ref = None, commit = None, operation = None,
               timestamp = ''2025-12-11T10:00:00.000Z'', status = committed\<rparr>)],
           serverId = ''server-2'', storage = \<lparr>dataDir = ''./data''\<rparr>\<rparr>
   \<and> map_option status
        (transactions
           (snd (handleAbort
              (map_of [(''transaction_id'', ''tx-1''), (''coordinator_id'', ''server-1'')])
              \<lparr>transactions = map_of [(''tx-1'',
                  \<lparr>transaction_id = ''tx-1'', coordinator_id = ''server-1'',
                   repo_id = ''alice/proj'', ref = None, commit = None, operation = None,
                   timestamp = ''2025-12-11T10:00:00.000Z'', status = committed\<rparr>)],
               serverId = ''server-2'', storage = \<lparr>dataDir = ''./data''\<rparr>\<rparr>))
           ''tx-1'') = Some aborted"
proof -
  let ?body = "map_of [(''transaction_id'', ''tx-1''), (''coordinator_id'', ''server-1'')]"
  let ?t = "\<lparr>transaction_id = ''tx-1'', coordinator_id = ''server-1'', repo_id = ''alice/proj'',
               ref = None, commit = None, operation = None,
               timestamp = ''2025-12-11T10:00:00.000Z'', status = committed\<rparr>"
  let ?h = "\<lparr>transactions = map_of [(''tx-1'', ?t)],
           serverId = ''server-2'', storage = \<lparr>dataDir = ''./data''\<rparr>\<rparr>"
  have 1: "?body ''transaction_id'' = Some ''tx-1''" and 2: "''tx-1'' \<noteq> []"
    and 3: "truthy (?body ''coordinator_id'')" and 4: "transactions ?h ''tx-1'' = Some ?t"
    by (simp_all add: truthy_def)
  note T = commit_abort_overwrite_status [OF 1 2 3 4]
  have st: "status ?t = committed"
    by simp
  note c = T [THEN conjunct2, THEN conjunct2, THEN conjunct2, THEN conjunct2, THEN conjunct1,
      THEN mp, OF st]
  have a: "map_option status (transactions (snd (handleAbort ?body ?h)) ''tx-1'') = Some aborted"
    unfolding T [THEN conjunct2, THEN conjunct1] by simp
  from c a show ?thesis
    by (rule conjI)
qed

text \<open>
  Claim C3, as stated, fails: a transaction that is prepared and committed is in the
  terminal status \<open>committed\<close>, and an abort for the same id then moves it to
  \<open>aborted\<close>.
\<close>

theorem terminal_status_counterexample:
  "map_option status
     (transactions
        (snd (handleCommit
                (map_of [(''transaction_id'', ''tx-1''), (''coordinator_id'', ''server-1'')])
                (fst (snd (handlePrepare ''2025-12-11T10:00:00.000Z'' None
                   (map_of [(''transaction_id'', ''tx-1''), (''coordinator_id'', ''server-1''),
                            (''repo_id'', ''alice/proj'')])
                   \<lparr>transactions = Map.empty, serverId = ''server-2'',
                    storage = \<lparr>dataDir = ''./data''\<rparr>\<rparr> {})))))
        ''tx-1'') = Some committed
   \<and> map_option status
     (transactions
        (snd (handleAbort
                (map_of [(''transaction_id'', ''tx-1''), (''coordinator_id'', ''server-1'')])
                (snd (handleCommit
                   (map_of [(''transaction_id'', ''tx-1''), (''coordinator_id'', ''server-1'')])
                   (fst (snd (handlePrepare ''2025-12-11T10:00:00.000Z'' None
                      (map_of [(''transaction_id'', ''tx-1''), (''coordinator_id'', ''server-1''),
                               (''repo_id'', ''alice/proj'')])
                      \<lparr>transactions = Map.empty, serverId = ''server-2'',
                       storage = \<lparr>dataDir = ''./data''\<rparr>\<rparr> {})))))))
        ''tx-1'') = Some aborted"
  by (simp add: handlePrepare_def handleCommit_def handleAbort_def truthy_def Let_def)

text \<open>
  Claim C6. For a transaction id that has no record on the node, in a request whose
  \<open>transaction_id\<close> and \<open>coordinator_id\<close> are present (not empty), commit answers 404
  with a not-found error, and abort answers 200 with status \<open>aborted\<close>; both leave the
  handler as it was, so no record is created.
\<close>

theorem commit_unknown_abort_unknown:
  assumes "body ''transaction_id'' = Some tid" and "tid \<noteq> []"
    and "truthy (body ''coordinator_id'')"
    and "transactions h tid = None"
  shows "handleCommit body h =
           (\<lparr>statusCode = 404,
             json = [(''error'', JString (''Transaction not found: '' @ tid))]\<rparr>, h)
         \<and> handleAbort body h =
           (\<lparr>statusCode = 200,
             json = [(''status'', JString ''aborted''), (''transaction_id'', JString tid),
                     (''server_id'', JString (ReplicationHandler.serverId h))]\<rparr>, h)"
  using assms by (simp add: handleCommit_def handleAbort_def truthy_Some)

text \<open>Claim C6 on a fresh handler, for the id \<open>tx-9\<close>.\<close>

theorem commit_unknown_abort_unknown_witness:
  "statusCode (fst (handleCommit
      (map_of [(''transaction_id'', ''tx-9''), (''coordinator_id'', ''server-1'')])
      (newReplicationHandler ''server-2'' \<lparr>dataDir = ''./data''\<rparr>))) = 404
   \<and> handleAbort
      (map_of [(''transaction_id'', ''tx-9''), (''coordinator_id'', ''server-1'')])
      (newReplicationHandler ''server-2'' \<lparr>dataDir = ''./data''\<rparr>)
     = (\<lparr>statusCode = 200,
         json = [(''status'', JString ''aborted''), (''transaction_id'', JString ''tx-9''),
                 (''server_id'', JString ''server-2'')]\<rparr>,
        newReplicationHandler ''server-2'' \<lparr>dataDir = ''./data''\<rparr>)"
proof -
  let ?body = "map_of [(''transaction_id'', ''tx-9''), (''coordinator_id'', ''server-1'')]"
  let ?h = "newReplicationHandler ''server-2'' \<lparr>dataDir = ''./data''\<rparr>"
  have 1: "?body ''transaction_id'' = Some ''tx-9''" and 2: "''tx-9'' \<noteq> []"
    and 3: "truthy (?body ''coordinator_id'')" and 4: "transactions ?h ''tx-9'' = None"
    by (simp_all add: truthy_def newReplicationHandler_def)
  note T = commit_unknown_abort_unknown [OF 1 2 3 4]
  have s: "ReplicationHandler.serverId ?h = ''server-2''"
    by (simp add: newReplicationHandler_def)
  show ?thesis
    unfolding T [THEN conjunct1] T [THEN conjunct2] s by simp
qed

text \<open>
  Claim C7. A prepare request is answered 400 exactly when one of \<open>transaction_id\<close>,
  \<open>coordinator_id\<close> and \<open>repo_id\<close> is missing, that is absent or the empty string (what
  \<^verbatim>\<open>!field\<close> tests). In that case the handler and the file system are unchanged and no
  storage call is made. When the request is answered 200, the handler has the new record
  under the transaction id, with status \<open>prepared\<close>.
\<close>

theorem handlePrepare_validation:
  fixes now fault body h fs
  defines "r \<equiv> handlePrepare now fault body h fs"
  shows "((statusCode (fst r) = 400)
            = ((body ''transaction_id'' = None \<or> body ''transaction_id'' = Some [])
               \<or> (body ''coordinator_id'' = None \<or> body ''coordinator_id'' = Some [])
               \<or> (body ''repo_id'' = None \<or> body ''repo_id'' = Some [])))
         \<and> (statusCode (fst r) = 400 \<longrightarrow> snd r = (h, fs, []))
         \<and> (statusCode (fst r) = 200 \<longrightarrow>
              (\<exists>tid cid rid.
                 body ''transaction_id'' = Some tid \<and> body ''coordinator_id'' = Some cid
                 \<and> body ''repo_id'' = Some rid
                 \<and> fst (snd r) = h\<lparr>transactions := (transactions h)(tid \<mapsto>
                      \<lparr>transaction_id = tid, coordinator_id = cid, repo_id = rid,
                       ref = body ''ref'', commit = body ''commit'',
                       operation = body ''operation'', timestamp = now,
                       status = prepared\<rparr>)\<rparr>))"
proof (intro conjI impI)
  show "(statusCode (fst r) = 400)
            = ((body ''transaction_id'' = None \<or> body ''transaction_id'' = Some [])
               \<or> (body ''coordinator_id'' = None \<or> body ''coordinator_id'' = Some [])
               \<or> (body ''repo_id'' = None \<or> body ''repo_id'' = Some []))"
    unfolding r_def handlePrepare_code_400 truthy_iff by auto
next
  assume "statusCode (fst r) = 400"
  then have "\<not> truthy (body ''transaction_id'') \<or> \<not> truthy (body ''coordinator_id'')
        \<or> \<not> truthy (body ''repo_id'')"
    unfolding r_def handlePrepare_code_400 .
  then show "snd r = (h, fs, [])"
    unfolding r_def by (simp add: handlePrepare_invalid)
next
  assume ok: "statusCode (fst r) = 200"
  then have "statusCode (fst r) \<noteq> 400"
    by simp
  then obtain tid cid rid where f:
    "body ''transaction_id'' = Some tid" "tid \<noteq> []"
    "body ''coordinator_id'' = Some cid" "cid \<noteq> []"
    "body ''repo_id'' = Some rid" "rid \<noteq> []"
    unfolding r_def handlePrepare_code_400 by (auto simp: truthy_iff)
  from ok have "fst (snd r) = h\<lparr>transactions := (transactions h)(tid \<mapsto>
                      \<lparr>transaction_id = tid, coordinator_id = cid, repo_id = rid,
                       ref = body ''ref'', commit = body ''commit'',
                       operation = body ''operation'', timestamp = now,
                       status = prepared\<rparr>)\<rparr>"
    unfolding r_def handlePrepare_valid [OF f] by (auto split: if_splits)
  with f show "\<exists>tid cid rid.
                 body ''transaction_id'' = Some tid \<and> body ''coordinator_id'' = Some cid
                 \<and> body ''repo_id'' = Some rid
                 \<and> fst (snd r) = h\<lparr>transactions := (transactions h)(tid \<mapsto>
                      \<lparr>transaction_id = tid, coordinator_id = cid, repo_id = rid,
                       ref = body ''ref'', commit = body ''commit'',
                       operation = body ''operation'', timestamp = now,
                       status = prepared\<rparr>)\<rparr>"
    by blast
qed

text \<open>
  Claim C7 on a request without \<open>repo_id\<close>, which is refused, and on a complete
  request, which is recorded as \<open>prepared\<close>.
\<close>

theorem handlePrepare_validation_witness:
  "statusCode (fst (handlePrepare ''2025-12-11T10:00:00.000Z'' None
      (map_of [(''transaction_id'', ''tx-1''), (''coordinator_id'', ''server-1'')])
      (newReplicationHandler ''server-2'' \<lparr>dataDir = ''./data''\<rparr>) {})) = 400
   \<and> snd (handlePrepare ''2025-12-11T10:00:00.000Z'' None
      (map_of [(''transaction_id'', ''tx-1''), (''coordinator_id'', ''server-1'')])
      (newReplicationHandler ''server-2'' \<lparr>dataDir = ''./data''\<rparr>) {})
     = (newReplicationHandler ''server-2'' \<lparr>dataDir = ''./data''\<rparr>, {}, [])
   \<and> map_option status (transactions (fst (snd (handlePrepare ''2025-12-11T10:00:00.000Z'' None
      (map_of [(''transaction_id'', ''tx-1''), (''coordinator_id'', ''server-1''),
               (''repo_id'', ''alice/proj''), (''operation'', ''create'')])
      (newReplicationHandler ''server-2'' \<lparr>dataDir = ''./data''\<rparr>) {}))) ''tx-1'')
     = Some prepared"
proof -
  let ?now = "''2025-12-11T10:00:00.000Z''"
  let ?bad = "map_of [(''transaction_id'', ''tx-1''), (''coordinator_id'', ''server-1'')]"
  let ?good = "map_of [(''transaction_id'', ''tx-1''), (''coordinator_id'', ''server-1''),
               (''repo_id'', ''alice/proj''), (''operation'', ''create'')]"
  let ?h = "newReplicationHandler ''server-2'' \<lparr>dataDir = ''./data''\<rparr>"
  note B = handlePrepare_validation [of ?now None ?bad ?h "{}"]
  have b1: "statusCode (fst (handlePrepare ?now None ?bad ?h {})) = 400"
    unfolding B [THEN conjunct1] by simp
  note b2 = B [THEN conjunct2, THEN conjunct1, THEN mp, OF b1]
  note G = handlePrepare_validation [of ?now None ?good ?h "{}"]
  have ok: "statusCode (fst (handlePrepare ?now None ?good ?h {})) = 200"
    by (simp add: handlePrepare_def truthy_def Let_def createRepo_def repoExists_def
          newReplicationHandler_def)
  from G [THEN conjunct2, THEN conjunct2, THEN mp, OF ok]
  obtain tid cid rid where g: "?good ''transaction_id'' = Some tid"
    "fst (snd (handlePrepare ?now None ?good ?h {})) = ?h\<lparr>transactions := (transactions ?h)(tid \<mapsto>
                      \<lparr>transaction_id = tid, coordinator_id = cid, repo_id = rid,
                       ref = ?good ''ref'', commit = ?good ''commit'',
                       operation = ?good ''operation'', timestamp = ?now,
                       status = prepared\<rparr>)\<rparr>"
    by blast
  from g(1) have "tid = ''tx-1''"
    by simp
  then have b3: "map_option status (transactions (fst (snd (handlePrepare ?now None ?good ?h {}))) ''tx-1'')
     = Some prepared"
    unfolding g(2) by simp
  from b1 b2 b3 show ?thesis
    by (intro conjI)
qed

text \<open>
  Claim C8. After a prepare request that was accepted, the same request again (at any later
  time, and whatever the file system would do on a write) is accepted too, leaves the file
  system as it is and makes no create call: for the operation \<open>create\<close> its only storage
  call is the existence check, which now finds the repository. Over the two calls
  together the storage is asked to create at most once.
\<close>

theorem handlePrepare_twice:
  assumes first: "handlePrepare now fault body h fs = (res1, h1, fs1, calls1)"
    and ok: "statusCode res1 = 200"
  shows "statusCode (fst (handlePrepare now' fault' body h1 fs1)) = 200
         \<and> fst (snd (snd (handlePrepare now' fault' body h1 fs1))) = fs1
         \<and> snd (snd (snd (handlePrepare now' fault' body h1 fs1)))
             = (if body ''operation'' = Some ''create''
                then [CallRepoExists (the (body ''repo_id''))] else [])
         \<and> createCalls (snd (snd (snd (handlePrepare now' fault' body h1 fs1)))) = []
         \<and> length (createCalls
               (calls1 @ snd (snd (snd (handlePrepare now' fault' body h1 fs1))))) \<le> 1"
proof -
  from first ok have "statusCode (fst (handlePrepare now fault body h fs)) \<noteq> 400"
    by simp
  then obtain tid cid rid where f:
    "body ''transaction_id'' = Some tid" "tid \<noteq> []"
    "body ''coordinator_id'' = Some cid" "cid \<noteq> []"
    "body ''repo_id'' = Some rid" "rid \<noteq> []"
    unfolding handlePrepare_code_400 by (auto simp: truthy_iff)
  note one = first [unfolded handlePrepare_valid [OF f]]
  from one ok have st: "ReplicationHandler.storage h1 = ReplicationHandler.storage h"
    by (auto split: if_splits)
  from one ok have ex: "body ''operation'' = Some ''create'' \<Longrightarrow>
      repoExists (ReplicationHandler.storage h) fs1 rid"
    by (auto split: if_splits simp: repoExists_def)
  from one ok have c1: "length (createCalls calls1) \<le> 1"
    by (auto split: if_splits)
  have two: "handlePrepare now' fault' body h1 fs1 =
      (\<lparr>statusCode = 200,
        json = [(''status'', JString ''prepared''), (''transaction_id'', JString tid),
                (''server_id'', JString (ReplicationHandler.serverId h1))]\<rparr>,
       h1\<lparr>transactions := (transactions h1)(tid \<mapsto>
            \<lparr>transaction_id = tid, coordinator_id = cid, repo_id = rid,
             ref = body ''ref'', commit = body ''commit'', operation = body ''operation'',
             timestamp = now', status = prepared\<rparr>)\<rparr>,
       fs1,
       if body ''operation'' = Some ''create'' then [CallRepoExists rid] else [])"
    unfolding handlePrepare_valid [OF f] using ex by (simp add: st)
  show ?thesis
    unfolding two using c1 f(5) by (simp add: createCalls_append)
qed

text \<open>
  Claim C8 on a fresh node: the first prepare creates \<open>alice/proj\<close>, the second only
  checks that it exists, even when a write to the file system would fail.
\<close>

theorem handlePrepare_twice_witness:
  "statusCode (fst (handlePrepare ''2025-12-11T10:00:05.000Z'' (Some ''EIO'')
      (map_of [(''transaction_id'', ''tx-1''), (''coordinator_id'', ''server-1''),
               (''repo_id'', ''alice/proj''), (''operation'', ''create'')])
      (fst (snd (handlePrepare ''2025-12-11T10:00:00.000Z'' None
         (map_of [(''transaction_id'', ''tx-1''), (''coordinator_id'', ''server-1''),
                  (''repo_id'', ''alice/proj''), (''operation'', ''create'')])
         (newReplicationHandler ''server-2'' \<lparr>dataDir = ''./data''\<rparr>) {})))
      (fst (snd (snd (handlePrepare ''2025-12-11T10:00:00.000Z'' None
         (map_of [(''transaction_id'', ''tx-1''), (''coordinator_id'', ''server-1''),
                  (''repo_id'', ''alice/proj''), (''operation'', ''create'')])
         (newReplicationHandler ''server-2'' \<lparr>dataDir = ''./data''\<rparr>) {})))))) = 200
   \<and> snd (snd (snd (handlePrepare ''2025-12-11T10:00:05.000Z'' (Some ''EIO'')
      (map_of [(''transaction_id'', ''tx-1''), (''coordinator_id'', ''server-1''),
               (''repo_id'', ''alice/proj''), (''operation'', ''create'')])
      (fst (snd (handlePrepare ''2025-12-11T10:00:00.000Z'' None
         (map_of [(''transaction_id'', ''tx-1''), (''coordinator_id'', ''server-1''),
                  (''repo_id'', ''alice/proj''), (''operation'', ''create'')])
         (newReplicationHandler ''server-2'' \<lparr>dataDir = ''./data''\<rparr>) {})))
      (fst (snd (snd (handlePrepare ''2025-12-11T10:00:00.000Z'' None
         (map_of [(''transaction_id'', ''tx-1''), (''coordinator_id'', ''server-1''),
                  (''repo_id'', ''alice/proj''), (''operation'', ''create'')])
         (newReplicationHandler ''server-2'' \<lparr>dataDir = ''./data''\<rparr>) {})))))))
     = [CallRepoExists ''alice/proj'']"
proof -
  let ?body = "map_of [(''transaction_id'', ''tx-1''), (''coordinator_id'', ''server-1''),
               (''repo_id'', ''alice/proj''), (''operation'', ''create'')]"
  let ?h = "newReplicationHandler ''server-2'' \<lparr>dataDir = ''./data''\<rparr>"
  let ?r1 = "handlePrepare ''2025-12-11T10:00:00.000Z'' None ?body ?h {}"
  have first: "?r1 = (fst ?r1, fst (snd ?r1), fst (snd (snd ?r1)), snd (snd (snd ?r1)))"
    by simp
  have ok: "statusCode (fst ?r1) = 200"
    by (simp add: handlePrepare_def truthy_def Let_def createRepo_def repoExists_def
          newReplicationHandler_def)
  note T = handlePrepare_twice [OF first ok, of "''2025-12-11T10:00:05.000Z''" "Some ''EIO''"]
  have op: "?body ''operation'' = Some ''create''" and rid: "the (?body ''repo_id'') = ''alice/proj''"
    by simp_all
  from T [THEN conjunct2, THEN conjunct2, THEN conjunct1]
  have calls: "snd (snd (snd (handlePrepare ''2025-12-11T10:00:05.000Z'' (Some ''EIO'') ?body
      (fst (snd ?r1)) (fst (snd (snd ?r1)))))) = [CallRepoExists ''alice/proj'']"
    by (simp only: op rid simp_thms if_True)
  from T [THEN conjunct1] calls show ?thesis
    by (rule conjI)
qed

text \<open>
  Claim C10. When the transaction id already has a record, in any status, a valid prepare
  request for that id (the three required fields present and not empty, and the storage
  step not failing) is answered 200 and replaces the whole record by a fresh one built
  from the request, with status \<open>prepared\<close> and the time of the new call as timestamp;
  the other records are untouched.
\<close>

theorem handlePrepare_resets_existing:
  assumes "transactions h tid = Some old"
    and "body ''transaction_id'' = Some tid" and "tid \<noteq> []"
    and "body ''coordinator_id'' = Some cid" and "cid \<noteq> []"
    and "body ''repo_id'' = Some rid" and "rid \<noteq> []"
    and "fault = None \<or> body ''operation'' \<noteq> Some ''create''
         \<or> repoExists (ReplicationHandler.storage h) fs rid"
  shows "statusCode (fst (handlePrepare now fault body h fs)) = 200
         \<and> transactions (fst (snd (handlePrepare now fault body h fs))) tid
             = Some \<lparr>transaction_id = tid, coordinator_id = cid, repo_id = rid,
                     ref = body ''ref'', commit = body ''commit'',
                     operation = body ''operation'', timestamp = now, status = prepared\<rparr>
         \<and> (\<forall>other. other \<noteq> tid \<longrightarrow>
               transactions (fst (snd (handlePrepare now fault body h fs))) other
                 = transactions h other)"
  unfolding handlePrepare_valid [OF assms(2-7)] using assms(8) by auto

text \<open>
  Claim C10 at a committed transaction: a prepare for the same id puts it back to
  \<open>prepared\<close>, with the new timestamp.
\<close>

theorem handlePrepare_resets_existing_witness:
  "transactions (fst (snd (handlePrepare ''2025-12-11T11:30:00.000Z'' None
      (map_of [(''transaction_id'', ''tx-1''), (''coordinator_id'', ''server-1''),
               (''repo_id'', ''alice/proj'')])
      \<lparr>transactions = map_of [(''tx-1'',
          \<lparr>transaction_id = ''tx-1'', coordinator_id = ''server-1'', repo_id = ''alice/proj'',
           ref = None, commit = None, operation = None,
           timestamp = ''2025-12-11T10:00:00.000Z'', status = committed\<rparr>)],
       serverId = ''server-2'', storage = \<lparr>dataDir = ''./data''\<rparr>\<rparr> {}))) ''tx-1''
     = Some \<lparr>transaction_id = ''tx-1'', coordinator_id = ''server-1'', repo_id = ''alice/proj'',
             ref = None, commit = None, operation = None,
             timestamp = ''2025-12-11T11:30:00.000Z'', status = prepared\<rparr>"
proof -
  let ?body = "map_of [(''transaction_id'', ''tx-1''), (''coordinator_id'', ''server-1''),
               (''repo_id'', ''alice/proj'')]"
  let ?t = "\<lparr>transaction_id = ''tx-1'', coordinator_id = ''server-1'', repo_id = ''alice/proj'',
           ref = None, commit = None, operation = None,
           timestamp = ''2025-12-11T10:00:00.000Z'', status = committed\<rparr>"
  let ?h = "\<lparr>transactions = map_of [(''tx-1'', ?t)],
       serverId = ''server-2'', storage = \<lparr>dataDir = ''./data''\<rparr>\<rparr>"
  have 1: "transactions ?h ''tx-1'' = Some ?t"
    and 2: "?body ''transaction_id'' = Some ''tx-1''" "''tx-1'' \<noteq> []"
    and 3: "?body ''coordinator_id'' = Some ''server-1''" "''server-1'' \<noteq> []"
    and 4: "?body ''repo_id'' = Some ''alice/proj''" "''alice/proj'' \<noteq> []"
    and 5: "None = None \<or> ?body ''operation'' \<noteq> Some ''create''
         \<or> repoExists (ReplicationHandler.storage ?h) {} ''alice/proj''"
    by simp_all
  have r: "?body ''ref'' = None" "?body ''commit'' = None" "?body ''operation'' = None"
    by simp_all
  note T = handlePrepare_resets_existing [OF 1 2 3 4 5, of "''2025-12-11T11:30:00.000Z''"]
  show ?thesis
    using T [THEN conjunct2, THEN conjunct1] unfolding r .
qed

section \<open>Claims about the local write path\<close>

text \<open>
  Claim C9. When the local create succeeds and the replication then returns
  \<open>success = False\<close>, the caller gets the response 500 \<open>Replication failed\<close> with the
  coordinator's message, and the file system returned is the one right after the local
  create: nothing is rolled back, the repository exists.
\<close>

theorem handleCreateRepo_no_rollback:
  assumes coord: "replicationCoordinator g = Some c"
    and rid: "body ''repo_id'' = Some rid" "rid \<noteq> []"
    and local: "createRepo (GitServer.storage g) fault fs rid = Inr created"
    and failed: "\<not> success (fst (replicateWrite c t prepareEnv commitEnv
           \<lparr>WriteData.repo_id = rid, WriteData.ref = ''refs/heads/main'',
            WriteData.commit = ''initial'', extra = [(''operation'', ''create'')]\<rparr>))"
  shows "fst (handleCreateRepo g fault t prepareEnv commitEnv body fs)
           = \<lparr>statusCode = 500,
              json = [(''error'', JString ''Replication failed''),
                      (''details'', JString (''Quorum not reached. Required: '' @
                         showInt (getQuorumSize c) @ '', Got: '' @
                         showNat (preparedCount c prepareEnv)))]\<rparr>
         \<and> fst (snd (handleCreateRepo g fault t prepareEnv commitEnv body fs)) = created
         \<and> repoExists (GitServer.storage g)
              (fst (snd (handleCreateRepo g fault t prepareEnv commitEnv body fs))) rid"
proof -
  note below = not_success_below_quorum [OF failed]
  note absent = createRepo_Inr(1) [OF local]
  note there = createRepo_Inr(3) [OF local]
  have "handleCreateRepo g fault t prepareEnv commitEnv body fs
          = (\<lparr>statusCode = 500,
              json = [(''error'', JString ''Replication failed''),
                      (''details'', JString (''Quorum not reached. Required: '' @
                         showInt (getQuorumSize c) @ '', Got: '' @
                         showNat (preparedCount c prepareEnv)))]\<rparr>,
             created,
             map (\<lambda>peerUrl. SendPrepare peerUrl t
                    \<lparr>WriteData.repo_id = rid, WriteData.ref = ''refs/heads/main'',
                     WriteData.commit = ''initial'', extra = [(''operation'', ''create'')]\<rparr>)
               (peerUrls c))"
    unfolding handleCreateRepo_def
    using rid absent local coord
    by (simp add: truthy_Some replicateWrite_below_quorum [OF below])
  with there show ?thesis
    by simp
qed

text \<open>
  Claim C9 on a node with one peer that is down: the request fails with 500 and
  \<open>alice/proj\<close> exists locally afterwards.
\<close>

theorem handleCreateRepo_no_rollback_witness:
  "statusCode (fst (handleCreateRepo
      (newGitServer ''./data'' ''server-1'' [''http://localhost:3002''])
      None ''tx-1'' (\<lambda>i. Rejected) (\<lambda>j. Rejected)
      (map_of [(''repo_id'', ''alice/proj'')]) {})) = 500
   \<and> repoExists \<lparr>dataDir = ''./data''\<rparr>
       (fst (snd (handleCreateRepo
          (newGitServer ''./data'' ''server-1'' [''http://localhost:3002''])
          None ''tx-1'' (\<lambda>i. Rejected) (\<lambda>j. Rejected)
          (map_of [(''repo_id'', ''alice/proj'')]) {})))
       ''alice/proj''"
proof -
  let ?g = "newGitServer ''./data'' ''server-1'' [''http://localhost:3002'']"
  let ?c = "\<lparr>ReplicationCoordinator.serverId = ''server-1'', peerUrls = [''http://localhost:3002'']\<rparr>"
  let ?body = "map_of [(''repo_id'', ''alice/proj'')]"
  let ?w = "\<lparr>WriteData.repo_id = ''alice/proj'', WriteData.ref = ''refs/heads/main'',
            WriteData.commit = ''initial'', extra = [(''operation'', ''create'')]\<rparr>"
  have coord: "replicationCoordinator ?g = Some ?c"
    by (simp add: newGitServer_def)
  have st: "GitServer.storage ?g = \<lparr>dataDir = ''./data''\<rparr>"
    by (simp add: newGitServer_def)
  have rid: "?body ''repo_id'' = Some ''alice/proj''" "''alice/proj'' \<noteq> []"
    by simp_all
  have local: "createRepo (GitServer.storage ?g) None {} ''alice/proj''
                 = Inr {''./data/alice/proj.git''}"
    unfolding st by (simp add: createRepo_def repoExists_def getRepoPath_def)
  have below: "int (preparedCount ?c (\<lambda>i. Rejected)) < getQuorumSize ?c"
    by (simp add: preparedCount_def getQuorumSize_closed)
  have failed: "\<not> success (fst (replicateWrite ?c ''tx-1'' (\<lambda>i. Rejected) (\<lambda>j. Rejected) ?w))"
    unfolding replicateWrite_below_quorum [OF below] by simp
  note T = handleCreateRepo_no_rollback [where g = ?g and c = ?c and body = ?body
      and rid = "''alice/proj''" and fault = None and fs = "{}"
      and created = "{''./data/alice/proj.git''}" and t = "''tx-1''"
      and prepareEnv = "\<lambda>i. Rejected" and commitEnv = "\<lambda>j. Rejected",
      OF coord rid local failed]
  have a: "statusCode (fst (handleCreateRepo ?g None ''tx-1'' (\<lambda>i. Rejected) (\<lambda>j. Rejected) ?body {})) = 500"
    unfolding T [THEN conjunct1] by simp
  from a T [THEN conjunct2, THEN conjunct2, unfolded st] show ?thesis
    by (rule conjI)
qed

end
